theory Spec2Isabelle
  imports Main "HOL-Library.Word"
begin

section \<open>The file reconciliation service (src/aiFileReconciliation.js)\<close>

text \<open>
  The class \<open>AIFileReconciliationService\<close> compares two files: accessibility, extension
  gate, checksum fast path, then a line-by-line comparison for \<open>.txt\<close>/\<open>.csv\<close> or a deep
  comparison for \<open>.json\<close>. The embedding follows the source method by method. What the
  source obtains from the Node.js runtime (\<open>fs\<close>, \<open>path\<close>, \<open>crypto\<close>, \<open>readline\<close>,
  \<open>JSON.parse\<close>, \<open>String.prototype.toLowerCase\<close>) is a field of the record \<open>runtime\<close>,
  so every theorem holds for whatever these calls deliver. A rejected promise or a thrown
  exception is the left injection of a sum.

  The method \<open>_log\<close> is called without \<open>await\<close> and catches its own failures, so it has
  no influence on the value \<open>reconcileFiles\<close> resolves to; it is left out.
\<close>

subsection \<open>Data\<close>

text \<open>
  A JavaScript error object, as far as the source reads it: \<open>error.code\<close>,
  \<open>error.path\<close> and \<open>error.message\<close>. An absent \<open>path\<close> prints as \<open>undefined\<close> in a
  template literal.
\<close>

record js_error =
  err_code :: "string option"
  err_path :: "string option"
  err_message :: string

text \<open>
  The object \<open>reconcileFiles\<close> resolves to. The fields \<open>checksum1\<close>, \<open>checksum2\<close>,
  \<open>details\<close> and \<open>error\<close> are present in some of the returned object literals only;
  an absent field is \<open>None\<close>.
\<close>

record outcome =
  status :: string
  message :: string
  checksum1 :: "string option"
  checksum2 :: "string option"
  details :: "string list option"
  error :: "string option"

text \<open>The object \<open>{ isMatch, details }\<close> both comparators return.\<close>

record comparisonResult =
  isMatch :: bool
  resultDetails :: "string list"

text \<open>The fields of \<open>this\<close> set by the constructor (\<open>logPath\<close> is used by \<open>_log\<close> only).\<close>

record config =
  checksumAlgorithm :: string
  verbose :: bool

text \<open>
  A value produced by \<open>JSON.parse\<close>. A number is an IEEE-754 double, kept as its
  64-bit pattern; an object is the list of its own properties in enumeration order.
\<close>

datatype json =
    JNull
  | JBool bool
  | JNumber "64 word"
  | JString string
  | JArray "json list"
  | JObject "(string \<times> json) list"

text \<open>
  The input a line iterator still has to deliver: the remaining lines, and whether the
  stream then ends (\<open>None\<close>) or fails with an error (\<open>Some e\<close>).
\<close>

type_synonym line_iter = "string list \<times> js_error option"

text \<open>
  The result object of \<open>iterator.next()\<close>, together with the input the iterator has
  left: \<open>Line v it\<close> is \<open>{ value: v, done: false }\<close>, \<open>Done\<close> is \<open>{ done: true }\<close>.
\<close>

datatype cursor = Line string line_iter | Done

text \<open>
  The calls into the Node.js runtime. \<open>createHash a\<close> is \<open>crypto.createHash(a)\<close>
  followed by \<open>update\<close> on every chunk and \<open>digest('hex')\<close>: it throws or gives the
  function from a file's bytes to the hex digest. \<open>createReadStream p\<close> is the stream
  the checksum reads: the rejection it causes (thrown at creation or emitted as an
  \<open>error\<close> event) or all the bytes delivered before \<open>end\<close>. \<open>createInterface p\<close>
  is \<open>readline.createInterface\<close> over \<open>fs.createReadStream(p, 'utf8')\<close>: what is
  thrown at creation, or the lines the iterator will deliver. When both promises of a
  \<open>Promise.all\<close> reject, \<open>secondRejectsFirst\<close> says whose rejection arrives first.

  In the source \<open>fs\<close> is \<open>require('fs').promises\<close> (line 1). That object has
  \<open>access\<close> and \<open>readFile\<close> but no \<open>createReadStream\<close>, so the calls
  \<open>fs.createReadStream(...)\<close> of lines 95, 117 and 121 throw the \<open>TypeError\<close>
  \<open>not_a_function\<close>: on the runtime the source runs on, \<open>createReadStream R p\<close> and
  \<open>createInterface R p\<close> are \<open>Inl not_a_function\<close> for every \<open>p\<close>. The record keeps
  both as fields, so that the methods are embedded as they are written; the runtime
  \<open>demo\<close> below gives them the values they have.
\<close>

record runtime =
  access :: "string \<Rightarrow> js_error + unit"
  extname :: "string \<Rightarrow> string"
  basename :: "string \<Rightarrow> string"
  toLowerCase :: "string \<Rightarrow> string"
  createHash :: "string \<Rightarrow> js_error + (string \<Rightarrow> string)"
  createReadStream :: "string \<Rightarrow> js_error + string"
  createInterface :: "string \<Rightarrow> js_error + line_iter"
  readFile :: "string \<Rightarrow> js_error + string"
  JSON_parse :: "string \<Rightarrow> js_error + json"
  secondRejectsFirst :: bool

text \<open>
  The calls \<open>reconcileFiles\<close> makes, in order: to \<open>fs.access\<close> and to the three
  methods of the service that read the files.
\<close>

datatype call =
    Access string
  | GenerateChecksum string
  | CompareTextFiles string string
  | CompareJsonFiles string string

type_synonym 'a io = "call list \<times> (js_error + 'a)"

subsection \<open>Template literals\<close>

text \<open>
  \<open>${lineNum}\<close>: the decimal digits of a line number (JavaScript prints an integer
  below \<open>10\<^sup>2\<^sup>1\<close> so). \<open>quoted\<close> and \<open>dquoted\<close> put a string between the quotes
  the templates of the source write around it.
\<close>

fun show_nat :: "nat \<Rightarrow> string" where
  "show_nat n =
     (if n < 10 then [''0123456789'' ! n]
      else show_nat (n div 10) @ [''0123456789'' ! (n mod 10)])"

declare show_nat.simps [simp del]

definition quoted :: "string \<Rightarrow> string" where
  "quoted s = [CHR 0x27] @ s @ [CHR 0x27]"

definition dquoted :: "string \<Rightarrow> string" where
  "dquoted s = [CHR 0x22] @ s @ [CHR 0x22]"

definition show_path :: "string option \<Rightarrow> string" where
  "show_path p = (case p of None \<Rightarrow> ''undefined'' | Some s \<Rightarrow> s)"

definition premature_entry :: "nat \<Rightarrow> string \<Rightarrow> string" where
  "premature_entry lineNum endedFileBasename =
     ''Line count mismatch starting at line '' @ show_nat lineNum @ '': File '' @
     quoted endedFileBasename @ '' ended prematurely.''"

definition only_entry :: "nat \<Rightarrow> nat \<Rightarrow> string \<Rightarrow> string \<Rightarrow> string" where
  "only_entry lineNum longerFileNum longerFileBasename v =
     ''Line '' @ show_nat lineNum @ '': Only in File '' @ show_nat longerFileNum @ '' ('' @
     quoted longerFileBasename @ ''): '' @ dquoted v"

definition differs_entry :: "nat \<Rightarrow> string \<Rightarrow> string \<Rightarrow> string" where
  "differs_entry lineNum v1 v2 =
     ''Line '' @ show_nat lineNum @ '' differs: File 1: '' @ dquoted v1 @ '' | File 2: '' @
     dquoted v2"

definition truncation_notice :: string where
  "truncation_notice = ''Further differences truncated (verbose logging not enabled).''"

definition json_differs_notice :: string where
  "json_differs_notice =
     ''JSON content differs (deep strict comparison, order of keys in objects does not matter).''"

subsection \<open>Promises\<close>

text \<open>\<open>Promise.all\<close> of two promises, awaited.\<close>

definition promise_all2 ::
  "runtime \<Rightarrow> js_error + 'a \<Rightarrow> js_error + 'b \<Rightarrow> js_error + ('a \<times> 'b)" where
  "promise_all2 R a b =
     (case a of
        Inr x \<Rightarrow> (case b of Inr y \<Rightarrow> Inr (x, y) | Inl e2 \<Rightarrow> Inl e2)
      | Inl e1 \<Rightarrow>
          (case b of
             Inr y \<Rightarrow> Inl e1
           | Inl e2 \<Rightarrow> Inl (if secondRejectsFirst R then e2 else e1)))"

text \<open>
  \<open>await m\<close> followed by the rest of the \<open>try\<close> block: a rejection skips the rest,
  the calls made so far are kept.
\<close>

definition await :: "'a io \<Rightarrow> ('a \<Rightarrow> 'b io) \<Rightarrow> 'b io" where
  "await m f =
     (case m of
        (t, Inl e) \<Rightarrow> (t, Inl e)
      | (t, Inr x) \<Rightarrow> (case f x of (t', r) \<Rightarrow> (t @ t', r)))"

subsection \<open>\<open>_generateChecksum\<close>\<close>

definition generateChecksum :: "runtime \<Rightarrow> config \<Rightarrow> string \<Rightarrow> js_error + string" where
  "generateChecksum R C filePath =
     (case createHash R (checksumAlgorithm C) of
        Inl e \<Rightarrow> Inl e
      | Inr hash \<Rightarrow>
          (case createReadStream R filePath of
             Inl err \<Rightarrow> Inl err
           | Inr chunks \<Rightarrow> Inr (hash chunks)))"

subsection \<open>\<open>_compareTextFiles\<close>\<close>

text \<open>\<open>iterator.next()\<close> on an iterator with the input \<open>it\<close> left.\<close>

fun next_line :: "line_iter \<Rightarrow> js_error + cursor" where
  "next_line (l # ls, t) = Inr (Line l (ls, t))"
| "next_line ([], None) = Inr Done"
| "next_line ([], Some e) = Inl e"

text \<open>
  \<open>iterator.next()\<close> on the iterator whose last result was the given one; once an
  iterator has returned \<open>done\<close> it keeps doing so.
\<close>

fun advance :: "cursor \<Rightarrow> js_error + cursor" where
  "advance (Line v it) = next_line it"
| "advance Done = Inr Done"

text \<open>The number of results other than \<open>done\<close> still to come, the given one included.\<close>

fun csize :: "cursor \<Rightarrow> nat" where
  "csize (Line v it) = Suc (length (fst it))"
| "csize Done = 0"

text \<open>
  The inner \<open>while (!currentRes.done)\<close> of verbose mode, over the longer file. It
  returns \<open>lineNum\<close> and \<open>details\<close> (written \<open>ds\<close>, the name \<open>details\<close> being a
  field of the outcome); at its exit the longer iterator has returned \<open>done\<close>.
\<close>

function drain ::
  "nat \<Rightarrow> string \<Rightarrow> cursor \<Rightarrow> nat \<Rightarrow> string list \<Rightarrow> js_error + (nat \<times> string list)" where
  "drain longerFileNum longerFileBasename Done lineNum ds = Inr (lineNum, ds)"
| "drain longerFileNum longerFileBasename (Line v it) lineNum ds =
     (let ds = ds @ [only_entry lineNum longerFileNum longerFileBasename v] in
      case next_line it of
        Inl e \<Rightarrow> Inl e
      | Inr currentRes \<Rightarrow>
          drain longerFileNum longerFileBasename currentRes (lineNum + 1) ds)"
  by pat_completeness auto
termination
proof (relation "measure (\<lambda>(k, b, c, n, d). csize c)")
  show "wf (measure (\<lambda>(k, b, c, n, d). csize c))" by simp
next
  fix k :: nat and b v :: string and it :: line_iter and n :: nat
    and d x :: "string list" and c :: cursor
  assume "next_line it = Inr c"
  then have "csize c \<le> length (fst it)"
    by (cases it rule: next_line.cases) auto
  then show "((k, b, c, n + 1, x), (k, b, Line v it, n, d))
      \<in> measure (\<lambda>(k, b, c, n, d). csize c)"
    by simp
qed

text \<open>
  The outer \<open>while (!res1.done || !res2.done)\<close>, one equation for each combination of
  \<open>res1.done\<close> and \<open>res2.done\<close>. \<open>b1\<close> and \<open>b2\<close> are \<open>path.basename(file1Path)\<close> and
  \<open>path.basename(file2Path)\<close>; \<open>matching\<close> is the variable \<open>isMatch\<close>. The result is
  \<open>isMatch\<close> and \<open>details\<close> at the exit of the loop, with the last result each iterator
  gave and the input it has left.
\<close>

function compare_loop ::
  "bool \<Rightarrow> string \<Rightarrow> string \<Rightarrow> cursor \<Rightarrow> cursor \<Rightarrow> nat \<Rightarrow> bool \<Rightarrow> string list \<Rightarrow>
     js_error + (bool \<times> string list \<times> cursor \<times> cursor)" where
  "compare_loop vb b1 b2 Done Done lineNum matching ds = Inr (matching, ds, Done, Done)"
| "compare_loop vb b1 b2 Done (Line v2 it2) lineNum matching ds =
     (let lineNum = lineNum + 1;
          ds = ds @ [premature_entry lineNum b1]
      in if vb then
           (case drain 2 b2 (Line v2 it2) lineNum ds of
              Inl e \<Rightarrow> Inl e
            | Inr (lineNum, ds) \<Rightarrow>
                (case advance Done of
                   Inl e \<Rightarrow> Inl e
                 | Inr res1 \<Rightarrow>
                     (case advance Done of
                        Inl e \<Rightarrow> Inl e
                      | Inr res2 \<Rightarrow> compare_loop vb b1 b2 res1 res2 lineNum False ds)))
         else Inr (False, ds, Done, Line v2 it2))"
| "compare_loop vb b1 b2 (Line v1 it1) Done lineNum matching ds =
     (let lineNum = lineNum + 1;
          ds = ds @ [premature_entry lineNum b2]
      in if vb then
           (case drain 1 b1 (Line v1 it1) lineNum ds of
              Inl e \<Rightarrow> Inl e
            | Inr (lineNum, ds) \<Rightarrow>
                (case advance Done of
                   Inl e \<Rightarrow> Inl e
                 | Inr res1 \<Rightarrow>
                     (case advance Done of
                        Inl e \<Rightarrow> Inl e
                      | Inr res2 \<Rightarrow> compare_loop vb b1 b2 res1 res2 lineNum False ds)))
         else Inr (False, ds, Line v1 it1, Done))"
| "compare_loop vb b1 b2 (Line v1 it1) (Line v2 it2) lineNum matching ds =
     (let lineNum = lineNum + 1
      in if v1 \<noteq> v2 then
           (let ds = ds @ [differs_entry lineNum v1 v2]
            in if \<not> vb \<and> length ds \<ge> 5 then
                 Inr (False, ds @ [truncation_notice], Line v1 it1, Line v2 it2)
               else
                 (case advance (Line v1 it1) of
                    Inl e \<Rightarrow> Inl e
                  | Inr res1 \<Rightarrow>
                      (case advance (Line v2 it2) of
                         Inl e \<Rightarrow> Inl e
                       | Inr res2 \<Rightarrow> compare_loop vb b1 b2 res1 res2 lineNum False ds)))
         else
           (case advance (Line v1 it1) of
              Inl e \<Rightarrow> Inl e
            | Inr res1 \<Rightarrow>
                (case advance (Line v2 it2) of
                   Inl e \<Rightarrow> Inl e
                 | Inr res2 \<Rightarrow> compare_loop vb b1 b2 res1 res2 lineNum matching ds)))"
  by pat_completeness auto
termination
proof (relation "measure (\<lambda>(vb, b1, b2, c1, c2, n, m, d). csize c1 + csize c2)",
    goal_cases)
  case 1
  show ?case by simp
next
  case 2
  then show ?case by auto
next
  case 3
  then show ?case by auto
next
  case (4 vb b1 b2 v1 it1 v2 it2 lineNum matching ds x xa x2 x2a)
  then show ?case
    by (cases it1 rule: next_line.cases; cases it2 rule: next_line.cases) auto
next
  case (5 vb b1 b2 v1 it1 v2 it2 lineNum matching ds x x2 x2a)
  then show ?case
    by (cases it1 rule: next_line.cases; cases it2 rule: next_line.cases) auto
qed

text \<open>
  The \<open>try\<close> block of \<open>_compareTextFiles\<close>: the first \<open>next()\<close> on each iterator,
  then the loop with \<open>lineNum = 0\<close>, \<open>isMatch = true\<close> and \<open>details = []\<close>.
\<close>

definition compareText_try ::
  "bool \<Rightarrow> string \<Rightarrow> string \<Rightarrow> line_iter \<Rightarrow> line_iter \<Rightarrow>
     js_error + (bool \<times> string list \<times> cursor \<times> cursor)" where
  "compareText_try vb b1 b2 iter1 iter2 =
     (case next_line iter1 of
        Inl e \<Rightarrow> Inl e
      | Inr res1 \<Rightarrow>
          (case next_line iter2 of
             Inl e \<Rightarrow> Inl e
           | Inr res2 \<Rightarrow> compare_loop vb b1 b2 res1 res2 0 True []))"

text \<open>
  The two interfaces are created before the \<open>try\<close>, so what their creation throws
  leaves the method; what the iteration throws is caught and becomes a mismatch.
\<close>

definition compareTextFiles ::
  "runtime \<Rightarrow> config \<Rightarrow> string \<Rightarrow> string \<Rightarrow> js_error + comparisonResult" where
  "compareTextFiles R C file1Path file2Path =
     (case createInterface R file1Path of
        Inl e \<Rightarrow> Inl e
      | Inr iter1 \<Rightarrow>
          (case createInterface R file2Path of
             Inl e \<Rightarrow> Inl e
           | Inr iter2 \<Rightarrow>
               (case compareText_try (verbose C) (basename R file1Path) (basename R file2Path)
                       iter1 iter2 of
                  Inl err \<Rightarrow>
                    Inr \<lparr>isMatch = False,
                         resultDetails =
                           [''Error reading files for comparison: '' @ err_message err]\<rparr>
                | Inr (matching, ds, res1, res2) \<Rightarrow>
                    Inr \<lparr>isMatch = matching, resultDetails = ds\<rparr>)))"

subsection \<open>\<open>_compareJsonFiles\<close>\<close>

text \<open>
  \<open>util.isDeepStrictEqual\<close> on values \<open>JSON.parse\<close> returns, after the Node.js
  documentation: primitives are compared with \<open>Object.is\<close> (which, no number being
  \<open>NaN\<close> here, is identity of the bit pattern), arrays by length and index by index,
  objects by the number of their own properties and, for every property of the first,
  the presence of the key in the second and the comparison of the two values.
\<close>

fun isDeepStrictEqual :: "json \<Rightarrow> json \<Rightarrow> bool"
  and arrayEquiv :: "json list \<Rightarrow> json list \<Rightarrow> bool"
  and keysEquiv :: "(string \<times> json) list \<Rightarrow> (string \<times> json) list \<Rightarrow> bool" where
  "isDeepStrictEqual JNull JNull = True"
| "isDeepStrictEqual (JBool a) (JBool b) = (a = b)"
| "isDeepStrictEqual (JNumber a) (JNumber b) = (a = b)"
| "isDeepStrictEqual (JString a) (JString b) = (a = b)"
| "isDeepStrictEqual (JArray xs) (JArray ys) = arrayEquiv xs ys"
| "isDeepStrictEqual (JObject ps) (JObject qs) = (length ps = length qs \<and> keysEquiv ps qs)"
| "isDeepStrictEqual _ _ = False"
| "arrayEquiv [] [] = True"
| "arrayEquiv (x # xs) (y # ys) = (isDeepStrictEqual x y \<and> arrayEquiv xs ys)"
| "arrayEquiv _ _ = False"
| "keysEquiv [] qs = True"
| "keysEquiv ((k, v) # ps) qs =
     (case map_of qs k of
        None \<Rightarrow> False
      | Some w \<Rightarrow> isDeepStrictEqual v w \<and> keysEquiv ps qs)"

definition parse_failure :: "js_error \<Rightarrow> comparisonResult" where
  "parse_failure parseError =
     \<lparr>isMatch = False, resultDetails = [''Error parsing JSON: '' @ err_message parseError]\<rparr>"

definition compareJsonFiles :: "runtime \<Rightarrow> config \<Rightarrow> string \<Rightarrow> string \<Rightarrow> comparisonResult" where
  "compareJsonFiles R C file1Path file2Path =
     (case promise_all2 R (readFile R file1Path) (readFile R file2Path) of
        Inl parseError \<Rightarrow> parse_failure parseError
      | Inr (content1, content2) \<Rightarrow>
          (case JSON_parse R content1 of
             Inl parseError \<Rightarrow> parse_failure parseError
           | Inr obj1 \<Rightarrow>
               (case JSON_parse R content2 of
                  Inl parseError \<Rightarrow> parse_failure parseError
                | Inr obj2 \<Rightarrow>
                    (let matching = isDeepStrictEqual obj1 obj2
                     in \<lparr>isMatch = matching,
                         resultDetails = (if \<not> matching then [json_differs_notice] else [])\<rparr>))))"

subsection \<open>\<open>reconcileFiles\<close>\<close>

text \<open>Lines 66 to 74: the object built from the result of a comparator.\<close>

definition comparison_outcome ::
  "string \<Rightarrow> string \<Rightarrow> string \<Rightarrow> string \<Rightarrow> comparisonResult \<Rightarrow> outcome" where
  "comparison_outcome file1Path file2Path cs1 cs2 comparisonResult =
     (if isMatch comparisonResult then
        \<lparr>status = ''MATCH'',
         message = ''Content matches for '' @ quoted file1Path @ '' and '' @
           quoted file2Path @ ''.'',
         checksum1 = Some cs1, checksum2 = Some cs2,
         details = Some (resultDetails comparisonResult), error = None\<rparr>
      else
        \<lparr>status = ''MISMATCH_CONTENT'',
         message = ''Content mismatch detected between '' @ quoted file1Path @ '' and '' @
           quoted file2Path @ ''.'',
         checksum1 = Some cs1, checksum2 = Some cs2,
         details = Some (resultDetails comparisonResult), error = None\<rparr>)"

text \<open>
  The \<open>try\<close> block: the calls made, and the object returned or the error thrown.
  \<open>cs1\<close> and \<open>cs2\<close> are the variables \<open>checksum1\<close> and \<open>checksum2\<close>.
\<close>

definition reconcile_try :: "runtime \<Rightarrow> config \<Rightarrow> string \<Rightarrow> string \<Rightarrow> outcome io" where
  "reconcile_try R C file1Path file2Path =
     await ([Access file1Path, Access file2Path],
            promise_all2 R (access R file1Path) (access R file2Path)) (\<lambda>_.
     let file1Ext = toLowerCase R (extname R file1Path);
         file2Ext = toLowerCase R (extname R file2Path)
     in if file1Ext \<noteq> file2Ext then
          ([], Inr \<lparr>status = ''MISMATCH_EXTENSIONS'',
                    message = ''File extensions do not match: '' @ quoted file1Ext @ '' vs '' @
                      quoted file2Ext @ ''. Cannot perform content comparison.'',
                    checksum1 = None, checksum2 = None, details = None, error = None\<rparr>)
        else
          await ([GenerateChecksum file1Path], generateChecksum R C file1Path) (\<lambda>cs1.
          await ([GenerateChecksum file2Path], generateChecksum R C file2Path) (\<lambda>cs2.
          if cs1 = cs2 then
            ([], Inr \<lparr>status = ''MATCH'',
                      message = ''Checksums match for '' @ quoted file1Path @ '' and '' @
                        quoted file2Path @ ''. Files are identical.'',
                      checksum1 = Some cs1, checksum2 = Some cs2, details = None,
                      error = None\<rparr>)
          else if file1Ext = ''.txt'' \<or> file1Ext = ''.csv'' then
            await ([CompareTextFiles file1Path file2Path],
                   compareTextFiles R C file1Path file2Path) (\<lambda>comparisonResult.
            ([], Inr (comparison_outcome file1Path file2Path cs1 cs2 comparisonResult)))
          else if file1Ext = ''.json'' then
            await ([CompareJsonFiles file1Path file2Path],
                   Inr (compareJsonFiles R C file1Path file2Path)) (\<lambda>comparisonResult.
            ([], Inr (comparison_outcome file1Path file2Path cs1 cs2 comparisonResult)))
          else
            ([], Inr \<lparr>status = ''UNSUPPORTED_TYPE'',
                      message = ''Unsupported file type for content comparison: '' @
                        quoted file1Ext @ ''. Only checksums were compared.'',
                      checksum1 = Some cs1, checksum2 = Some cs2, details = None,
                      error = None\<rparr>))))"

text \<open>The \<open>catch\<close> block.\<close>

definition reconcile_catch :: "js_error \<Rightarrow> outcome" where
  "reconcile_catch err =
     (if err_code err = Some ''ENOENT'' then
        \<lparr>status = ''FILE_NOT_FOUND'',
         message = ''One or both files not found: '' @ show_path (err_path err) @ ''.'',
         checksum1 = None, checksum2 = None, details = None,
         error = Some (err_message err)\<rparr>
      else
        \<lparr>status = ''ERROR'',
         message = ''An unexpected error occurred: '' @ err_message err,
         checksum1 = None, checksum2 = None, details = None,
         error = Some (err_message err)\<rparr>)"

text \<open>One run of \<open>reconcileFiles\<close>: the calls it made and the object it resolved to.\<close>

definition reconcile_run :: "runtime \<Rightarrow> config \<Rightarrow> string \<Rightarrow> string \<Rightarrow> call list \<times> outcome" where
  "reconcile_run R C file1Path file2Path =
     (case reconcile_try R C file1Path file2Path of
        (t, Inr result) \<Rightarrow> (t, result)
      | (t, Inl err) \<Rightarrow> (t, reconcile_catch err))"

definition reconcileFiles :: "runtime \<Rightarrow> config \<Rightarrow> string \<Rightarrow> string \<Rightarrow> outcome" where
  "reconcileFiles R C file1Path file2Path = snd (reconcile_run R C file1Path file2Path)"

definition reconcile_calls :: "runtime \<Rightarrow> config \<Rightarrow> string \<Rightarrow> string \<Rightarrow> call list" where
  "reconcile_calls R C file1Path file2Path = fst (reconcile_run R C file1Path file2Path)"

subsection \<open>A runtime with a few files\<close>

text \<open>
  A small file system to run the service on: for every path the lines of the file. The
  bytes of a file are its lines, each followed by a line feed.
\<close>

definition demo_files :: "(string \<times> string list) list" where
  \<open>demo_files =
     [(''a.txt'', [''x'', ''y'']),
      (''b.txt'', [''x'']),
      (''copy.TXT'', [''x'', ''y'']),
      (''long.txt'', [''x'', ''y'', ''z'']),
      (''s1.txt'', [''a'', ''b'', ''c'']),
      (''s2.txt'', [''d'', ''e'', ''f'']),
      (''t1.csv'', [''id,n'', ''1,one'', ''2,two'', ''3,three'', ''4,four'', ''5,five'', ''6,six'',
        ''7,seven'', ''8,eight'', ''9,nine'']),
      (''t2.csv'', [''key,name'', ''1,uno'', ''2,dos'', ''3,tres'', ''4,cuatro'', ''5,cinco'',
        ''6,seis'', ''7,siete'', ''8,ocho'', ''9,nueve'']),
      (''u1.txt'', [''1'', ''same'', ''2'', ''3'', ''4'', ''5'', ''end'']),
      (''u2.txt'', [''a'', ''same'', ''b'', ''c'', ''d'', ''e'', ''end'']),
      (''k1.json'', [''{"a":1,"b":2}'']),
      (''k2.json'', [''{"b":2,"a":1}'']),
      (''l1.json'', [''[1,2]'']),
      (''l2.json'', [''[2,1]'']),
      (''cut.json'', [''{"a":''])]\<close>

text \<open>The doubles \<open>1\<close> and \<open>2\<close>, as bit patterns.\<close>

definition double_1 :: "64 word" where
  "double_1 = 0x3FF0000000000000"

definition double_2 :: "64 word" where
  "double_2 = 0x4000000000000000"

definition demo_bytes :: "string list \<Rightarrow> string" where
  "demo_bytes ls = concat (map (\<lambda>l. l @ [CHR 0x0A]) ls)"

definition ENOENT :: "string \<Rightarrow> js_error" where
  "ENOENT p =
     \<lparr>err_code = Some ''ENOENT'', err_path = Some p,
      err_message = ''ENOENT: no such file or directory, access '' @ quoted p\<rparr>"

definition SyntaxError :: js_error where
  "SyntaxError =
     \<lparr>err_code = None, err_path = None, err_message = ''Unexpected end of JSON input''\<rparr>"

definition demo_read :: "(string list \<Rightarrow> 'a) \<Rightarrow> string \<Rightarrow> js_error + 'a" where
  "demo_read f p = (case map_of demo_files p of None \<Rightarrow> Inl (ENOENT p) | Some ls \<Rightarrow> Inr (f ls))"

text \<open>
  \<open>path.basename\<close> and \<open>path.extname\<close> on POSIX paths: trailing slashes are dropped
  and the last segment is taken; its extension starts at its last dot, and is empty when
  there is no dot, when the last dot is the first character of the segment, or when the
  segment is \<open>..\<close>.
\<close>

definition demo_basename :: "string \<Rightarrow> string" where
  "demo_basename p =
     rev (takeWhile (\<lambda>c. c \<noteq> CHR ''/'') (dropWhile (\<lambda>c. c = CHR ''/'') (rev p)))"

definition demo_extname :: "string \<Rightarrow> string" where
  "demo_extname p =
     (let part = demo_basename p;
          before = butlast (rev (dropWhile (\<lambda>c. c \<noteq> CHR ''.'') (rev part)))
      in if CHR ''.'' \<notin> set part \<or> before = [] \<or> part = ''..'' then []
         else CHR ''.'' # rev (takeWhile (\<lambda>c. c \<noteq> CHR ''.'') (rev part)))"

text \<open>\<open>toLowerCase\<close> on ASCII strings.\<close>

definition demo_lower :: "char \<Rightarrow> char" where
  "demo_lower c =
     (case map_of (zip ''ABCDEFGHIJKLMNOPQRSTUVWXYZ'' ''abcdefghijklmnopqrstuvwxyz'') c of
        None \<Rightarrow> c
      | Some d \<Rightarrow> d)"

definition demo_parse :: "string \<Rightarrow> js_error + json" where
  \<open>demo_parse s =
     (case map_of
        [(''{"a":1,"b":2}'' @ [CHR 0x0A],
            JObject [(''a'', JNumber double_1), (''b'', JNumber double_2)]),
         (''{"b":2,"a":1}'' @ [CHR 0x0A],
            JObject [(''b'', JNumber double_2), (''a'', JNumber double_1)]),
         (''[1,2]'' @ [CHR 0x0A], JArray [JNumber double_1, JNumber double_2]),
         (''[2,1]'' @ [CHR 0x0A], JArray [JNumber double_2, JNumber double_1])] s of
        None \<Rightarrow> Inl SyntaxError
      | Some j \<Rightarrow> Inr j)\<close>

definition demo_hash :: "string \<Rightarrow> js_error + (string \<Rightarrow> string)" where
  "demo_hash a =
     (if a = ''sha256'' \<or> a = ''md5'' then Inr (\<lambda>bytes. a @ '':'' @ bytes)
      else Inl \<lparr>err_code = Some ''ERR_OSSL_EVP_UNSUPPORTED'', err_path = None,
                err_message = ''Digest method not supported''\<rparr>)"

text \<open>
  What calling \<open>fs.createReadStream\<close> throws when \<open>fs\<close> is \<open>require('fs').promises\<close>.
\<close>

definition not_a_function :: js_error where
  "not_a_function =
     \<lparr>err_code = None, err_path = None,
      err_message = ''fs.createReadStream is not a function''\<rparr>"

definition demo :: runtime where
  "demo =
     \<lparr>access = demo_read (\<lambda>ls. ()),
      extname = demo_extname,
      basename = demo_basename,
      toLowerCase = map demo_lower,
      createHash = demo_hash,
      createReadStream = (\<lambda>p. Inl not_a_function),
      createInterface = (\<lambda>p. Inl not_a_function),
      readFile = demo_read demo_bytes,
      JSON_parse = demo_parse,
      secondRejectsFirst = False\<rparr>"

definition quiet :: config where
  "quiet = \<lparr>checksumAlgorithm = ''sha256'', verbose = False\<rparr>"

definition chatty :: config where
  "chatty = \<lparr>checksumAlgorithm = ''sha256'', verbose = True\<rparr>"

definition misconfigured :: config where
  "misconfigured = \<lparr>checksumAlgorithm = ''crc'', verbose = False\<rparr>"

section \<open>Properties\<close>

subsection \<open>The verdict of the comparators\<close>

lemma drain_extends:
  "drain k b c n ds = Inr (n', ds') \<Longrightarrow> \<exists>ext. ds' = ds @ ext"
proof (induction k b c n ds rule: drain.induct)
  case (1 k b n ds)
  then show ?case by simp
next
  case (2 k b v it n ds)
  then show ?case
    by (auto simp: Let_def split: sum.splits)
qed

lemma compare_loop_verdict:
  "compare_loop vb b1 b2 c1 c2 n m ds = Inr (m', ds', c1', c2') \<Longrightarrow> m = (ds = [])
    \<Longrightarrow> m' = (ds' = [])"
proof (induction vb b1 b2 c1 c2 n m ds rule: compare_loop.induct)
  case (1 vb b1 b2 lineNum matching ds)
  then show ?case by auto
next
  case (2 vb b1 b2 v2 it2 lineNum matching ds)
  show ?case
  proof (cases vb)
    case False
    with 2 show ?thesis by (auto simp: Let_def)
  next
    case True
    with "2.prems" obtain k ds1 where
      d: "drain 2 b2 (Line v2 it2) (lineNum + 1) (ds @ [premature_entry (lineNum + 1) b1]) = Inr (k, ds1)"
      and r: "compare_loop vb b1 b2 Done Done k False ds1 = Inr (m', ds', c1', c2')"
      by (auto simp: Let_def split: sum.splits)
    from drain_extends [OF d] have "ds1 \<noteq> []" by auto
    with r show ?thesis by auto
  qed
next
  case (3 vb b1 b2 v1 it1 lineNum matching ds)
  show ?case
  proof (cases vb)
    case False
    with 3 show ?thesis by (auto simp: Let_def)
  next
    case True
    with "3.prems" obtain k ds1 where
      d: "drain 1 b1 (Line v1 it1) (lineNum + 1) (ds @ [premature_entry (lineNum + 1) b2]) = Inr (k, ds1)"
      and r: "compare_loop vb b1 b2 Done Done k False ds1 = Inr (m', ds', c1', c2')"
      by (auto simp: Let_def split: sum.splits)
    from drain_extends [OF d] have "ds1 \<noteq> []" by auto
    with r show ?thesis by auto
  qed
next
  case (4 vb b1 b2 v1 it1 v2 it2 lineNum matching ds)
  show ?case
  proof (cases "v1 = v2")
    case True
    with "4.prems" obtain r1 r2 where
      a: "next_line it1 = Inr r1" "next_line it2 = Inr r2"
      and r: "compare_loop vb b1 b2 r1 r2 (lineNum + 1) matching ds = Inr (m', ds', c1', c2')"
      by (auto simp: Let_def split: sum.splits)
    from "4.IH"(2) [OF refl _ _ _ r] True a "4.prems"(2) show ?thesis by auto
  next
    case False
    show ?thesis
    proof (cases "\<not> vb \<and> 5 \<le> length (ds @ [differs_entry (lineNum + 1) v1 v2])")
      case True
      with False "4.prems" show ?thesis by (auto simp: Let_def)
    next
      case nb: False
      with False "4.prems" obtain r1 r2 where
        a: "next_line it1 = Inr r1" "next_line it2 = Inr r2"
        and r: "compare_loop vb b1 b2 r1 r2 (lineNum + 1) False
                  (ds @ [differs_entry (lineNum + 1) v1 v2]) = Inr (m', ds', c1', c2')"
        by (auto simp: Let_def split: sum.splits)
      from "4.IH"(1) [OF refl _ refl _ _ _ r] False nb a show ?thesis by auto
    qed
  qed
qed

lemma compareTextFiles_verdict:
  assumes "compareTextFiles R C p1 p2 = Inr r"
  shows "isMatch r = (resultDetails r = [])"
proof -
  from assms obtain iter1 iter2 where
    i: "createInterface R p1 = Inr iter1" "createInterface R p2 = Inr iter2"
    by (cases "createInterface R p1"; cases "createInterface R p2")
      (auto simp: compareTextFiles_def)
  show ?thesis
  proof (cases "compareText_try (verbose C) (basename R p1) (basename R p2) iter1 iter2")
    case (Inl e)
    with assms i show ?thesis by (auto simp: compareTextFiles_def)
  next
    case (Inr q)
    obtain m ds c1 c2 where q: "q = (m, ds, c1, c2)" by (cases q) auto
    from Inr q obtain res1 res2 where
      "compare_loop (verbose C) (basename R p1) (basename R p2) res1 res2 0 True [] = Inr (m, ds, c1, c2)"
      by (auto simp: compareText_try_def split: sum.splits)
    from compare_loop_verdict [OF this] have "m = (ds = [])" by simp
    with assms i Inr q show ?thesis by (auto simp: compareTextFiles_def)
  qed
qed

lemma compareJsonFiles_verdict:
  "isMatch (compareJsonFiles R C p1 p2) = (resultDetails (compareJsonFiles R C p1 p2) = [])"
  by (simp add: compareJsonFiles_def parse_failure_def Let_def split: sum.splits prod.splits)

lemma reconcile_try_shape:
  assumes "reconcile_try R C p1 p2 = (t, Inr out)"
  shows "(status out \<in> {''MISMATCH_EXTENSIONS'', ''MATCH'', ''UNSUPPORTED_TYPE''} \<and> details out = None)
       \<or> (\<exists>cs1 cs2 r. out = comparison_outcome p1 p2 cs1 cs2 r
            \<and> (compareTextFiles R C p1 p2 = Inr r \<or> r = compareJsonFiles R C p1 p2))"
  using assms
  by (auto simp: reconcile_try_def await_def Let_def split: sum.splits prod.splits if_splits)

lemma comparison_outcome_fields:
  "status (comparison_outcome p1 p2 a b r) = (if isMatch r then ''MATCH'' else ''MISMATCH_CONTENT'')"
  "details (comparison_outcome p1 p2 a b r) = Some (resultDetails r)"
  "checksum1 (comparison_outcome p1 p2 a b r) = Some a"
  "checksum2 (comparison_outcome p1 p2 a b r) = Some b"
  by (simp_all add: comparison_outcome_def)

lemmas demo_defs = demo_def demo_read_def demo_files_def demo_basename_def demo_extname_def
  demo_lower_def demo_bytes_def demo_parse_def demo_hash_def quiet_def chatty_def
  misconfigured_def generateChecksum_def

lemmas run_defs = reconcileFiles_def reconcile_calls_def reconcile_run_def reconcile_try_def
  await_def promise_all2_def compareTextFiles_def compareText_try_def compareJsonFiles_def
  comparison_outcome_def parse_failure_def Let_def

subsection \<open>The extension gate\<close>

text \<open>
  C2. When both paths are accessible and their extensions differ after \<open>toLowerCase\<close>,
  \<open>reconcileFiles\<close> resolves to status \<open>MISMATCH_EXTENSIONS\<close>, the object has neither
  \<open>checksum1\<close> nor \<open>checksum2\<close>, and the only calls made are the two accesses: no
  checksum is computed.
\<close>

theorem extension_gate:
  assumes "access R p1 = Inr ()" and "access R p2 = Inr ()"
    and "toLowerCase R (extname R p1) \<noteq> toLowerCase R (extname R p2)"
  shows "status (reconcileFiles R C p1 p2) = ''MISMATCH_EXTENSIONS''
       \<and> checksum1 (reconcileFiles R C p1 p2) = None
       \<and> checksum2 (reconcileFiles R C p1 p2) = None
       \<and> reconcile_calls R C p1 p2 = [Access p1, Access p2]"
  using assms
  by (simp add: reconcileFiles_def reconcile_calls_def reconcile_run_def reconcile_try_def
      await_def promise_all2_def)

theorem extension_gate_witness:
  "access demo ''a.txt'' = Inr () \<and> access demo ''k1.json'' = Inr ()
   \<and> toLowerCase demo (extname demo ''a.txt'') \<noteq> toLowerCase demo (extname demo ''k1.json'')
   \<and> status (reconcileFiles demo quiet ''a.txt'' ''k1.json'') = ''MISMATCH_EXTENSIONS''
   \<and> checksum1 (reconcileFiles demo quiet ''a.txt'' ''k1.json'') = None
   \<and> checksum2 (reconcileFiles demo quiet ''a.txt'' ''k1.json'') = None
   \<and> reconcile_calls demo quiet ''a.txt'' ''k1.json'' = [Access ''a.txt'', Access ''k1.json'']"
proof -
  have a: "access demo ''a.txt'' = Inr ()" "access demo ''k1.json'' = Inr ()"
    by (simp_all add: demo_defs)
  have e: "toLowerCase demo (extname demo ''a.txt'') \<noteq> toLowerCase demo (extname demo ''k1.json'')"
    by (simp add: demo_defs)
  from extension_gate [OF a e, of quiet] a e show ?thesis by simp
qed

subsection \<open>The invariants of the outcome\<close>

text \<open>
  C3. Every object \<open>reconcileFiles\<close> resolves to satisfies: if the status is \<open>MATCH\<close>
  the details are empty (the field is absent or the empty list), and if the status is
  \<open>MISMATCH_CONTENT\<close> the details are a non-empty list.
\<close>

theorem outcome_invariants:
  "(status (reconcileFiles R C p1 p2) = ''MATCH'' \<longrightarrow>
      details (reconcileFiles R C p1 p2) = None \<or> details (reconcileFiles R C p1 p2) = Some [])
   \<and> (status (reconcileFiles R C p1 p2) = ''MISMATCH_CONTENT'' \<longrightarrow>
      (\<exists>ds. details (reconcileFiles R C p1 p2) = Some ds \<and> ds \<noteq> []))"
proof (cases "reconcile_try R C p1 p2")
  case (Pair t res)
  show ?thesis
  proof (cases res)
    case (Inl e)
    with Pair have "reconcileFiles R C p1 p2 = reconcile_catch e"
      by (simp add: reconcileFiles_def reconcile_run_def)
    then show ?thesis by (simp add: reconcile_catch_def)
  next
    case (Inr out)
    with Pair have out: "reconcileFiles R C p1 p2 = out"
      by (simp add: reconcileFiles_def reconcile_run_def)
    from Pair Inr have "reconcile_try R C p1 p2 = (t, Inr out)" by simp
    from reconcile_try_shape [OF this] show ?thesis
    proof
      assume "status out \<in> {''MISMATCH_EXTENSIONS'', ''MATCH'', ''UNSUPPORTED_TYPE''} \<and> details out = None"
      with out show ?thesis by auto
    next
      assume "\<exists>cs1 cs2 r. out = comparison_outcome p1 p2 cs1 cs2 r
            \<and> (compareTextFiles R C p1 p2 = Inr r \<or> r = compareJsonFiles R C p1 p2)"
      then obtain cs1 cs2 r where o: "out = comparison_outcome p1 p2 cs1 cs2 r"
        and r: "compareTextFiles R C p1 p2 = Inr r \<or> r = compareJsonFiles R C p1 p2"
        by blast
      from r have "isMatch r = (resultDetails r = [])"
        using compareTextFiles_verdict compareJsonFiles_verdict by blast
      with o out show ?thesis by (simp add: comparison_outcome_def)
    qed
  qed
qed

text \<open>
  Neither status occurs on \<open>demo\<close>, where no stream is created. The two runs below are
  on \<open>demo\<close> with the streams of an \<open>fs\<close> that has \<open>createReadStream\<close>, one of the
  runtimes the invariants are proved for.
\<close>

theorem outcome_invariants_witness:
  "status (reconcileFiles
       (demo\<lparr>createReadStream := demo_read demo_bytes,
             createInterface := demo_read (\<lambda>ls. (ls, None))\<rparr>)
       quiet ''a.txt'' ''copy.TXT'') = ''MATCH''
   \<and> (details (reconcileFiles
       (demo\<lparr>createReadStream := demo_read demo_bytes,
             createInterface := demo_read (\<lambda>ls. (ls, None))\<rparr>)
       quiet ''a.txt'' ''copy.TXT'') = None
     \<or> details (reconcileFiles
       (demo\<lparr>createReadStream := demo_read demo_bytes,
             createInterface := demo_read (\<lambda>ls. (ls, None))\<rparr>)
       quiet ''a.txt'' ''copy.TXT'') = Some [])
   \<and> status (reconcileFiles
       (demo\<lparr>createReadStream := demo_read demo_bytes,
             createInterface := demo_read (\<lambda>ls. (ls, None))\<rparr>)
       quiet ''a.txt'' ''b.txt'') = ''MISMATCH_CONTENT''
   \<and> (\<exists>ds. details (reconcileFiles
       (demo\<lparr>createReadStream := demo_read demo_bytes,
             createInterface := demo_read (\<lambda>ls. (ls, None))\<rparr>)
       quiet ''a.txt'' ''b.txt'') = Some ds \<and> ds \<noteq> [])"
proof -
  define R where "R = demo\<lparr>createReadStream := demo_read demo_bytes,
    createInterface := demo_read (\<lambda>ls. (ls, None))\<rparr>"
  have m: "status (reconcileFiles R quiet ''a.txt'' ''copy.TXT'') = ''MATCH''"
    by (simp add: R_def run_defs demo_defs)
  have c: "status (reconcileFiles R quiet ''a.txt'' ''b.txt'') = ''MISMATCH_CONTENT''"
    by (simp add: R_def run_defs demo_defs)
  from outcome_invariants [of R quiet "''a.txt''" "''copy.TXT''"]
    outcome_invariants [of R quiet "''a.txt''" "''b.txt''"] m c
  show ?thesis unfolding R_def by blast
qed

subsection \<open>No error leaves \<open>reconcileFiles\<close>\<close>

text \<open>
  C4. \<open>reconcileFiles\<close> resolves for every pair of paths, and the status of the object
  is one of \<open>MATCH\<close>, \<open>MISMATCH_EXTENSIONS\<close>, \<open>MISMATCH_CONTENT\<close>,
  \<open>UNSUPPORTED_TYPE\<close>, \<open>FILE_NOT_FOUND\<close> and \<open>ERROR\<close>. Whatever is thrown inside the
  \<open>try\<close> block is caught: an error with the code \<open>ENOENT\<close> gives \<open>FILE_NOT_FOUND\<close>,
  every other error gives \<open>ERROR\<close>.
\<close>

theorem never_throws:
  "status (reconcileFiles R C p1 p2)
     \<in> {''MATCH'', ''MISMATCH_EXTENSIONS'', ''MISMATCH_CONTENT'', ''UNSUPPORTED_TYPE'',
        ''FILE_NOT_FOUND'', ''ERROR''}
   \<and> (\<forall>e. snd (reconcile_try R C p1 p2) = Inl e \<longrightarrow>
         reconcileFiles R C p1 p2 = reconcile_catch e
       \<and> status (reconcileFiles R C p1 p2)
           = (if err_code e = Some ''ENOENT'' then ''FILE_NOT_FOUND'' else ''ERROR''))"
proof (cases "reconcile_try R C p1 p2")
  case (Pair t res)
  show ?thesis
  proof (cases res)
    case (Inl e)
    with Pair have "reconcileFiles R C p1 p2 = reconcile_catch e"
      by (simp add: reconcileFiles_def reconcile_run_def)
    with Pair Inl show ?thesis by (simp add: reconcile_catch_def)
  next
    case (Inr out)
    with Pair have out: "reconcileFiles R C p1 p2 = out"
      by (simp add: reconcileFiles_def reconcile_run_def)
    from Pair Inr have "reconcile_try R C p1 p2 = (t, Inr out)" by simp
    from reconcile_try_shape [OF this]
    have "status out \<in> {''MATCH'', ''MISMATCH_EXTENSIONS'', ''MISMATCH_CONTENT'',
        ''UNSUPPORTED_TYPE'', ''FILE_NOT_FOUND'', ''ERROR''}"
      by (auto simp: comparison_outcome_fields split: if_splits)
    with out Pair Inr show ?thesis by simp
  qed
qed

theorem never_throws_witness:
  "snd (reconcile_try demo misconfigured ''a.txt'' ''b.txt'')
     = Inl \<lparr>err_code = Some ''ERR_OSSL_EVP_UNSUPPORTED'', err_path = None,
            err_message = ''Digest method not supported''\<rparr>
   \<and> status (reconcileFiles demo misconfigured ''a.txt'' ''b.txt'') = ''ERROR''
   \<and> snd (reconcile_try demo quiet ''a.txt'' ''missing.txt'') = Inl (ENOENT ''missing.txt'')
   \<and> status (reconcileFiles demo quiet ''a.txt'' ''missing.txt'') = ''FILE_NOT_FOUND''"
proof -
  have a: "snd (reconcile_try demo misconfigured ''a.txt'' ''b.txt'')
     = Inl \<lparr>err_code = Some ''ERR_OSSL_EVP_UNSUPPORTED'', err_path = None,
            err_message = ''Digest method not supported''\<rparr>"
    by (simp add: reconcile_try_def await_def promise_all2_def Let_def demo_defs)
  have b: "snd (reconcile_try demo quiet ''a.txt'' ''missing.txt'') = Inl (ENOENT ''missing.txt'')"
    by (simp add: reconcile_try_def await_def promise_all2_def Let_def demo_defs)
  from never_throws [of demo misconfigured "''a.txt''" "''b.txt''"]
    never_throws [of demo quiet "''a.txt''" "''missing.txt''"] a b
  show ?thesis by (simp add: ENOENT_def reconcile_catch_def)
qed

subsection \<open>The streams are never created\<close>

text \<open>
  Where \<open>fs.createReadStream\<close> throws, no checksum is computed and the text comparator
  rejects before its \<open>try\<close> block; a run then ends at the extension gate or in the
  \<open>catch\<close> block.
\<close>

lemma no_checksum: "createReadStream R p = Inl e \<Longrightarrow> generateChecksum R C p \<noteq> Inr c"
  by (simp add: generateChecksum_def split: sum.splits)

lemma no_lines: "createInterface R p1 = Inl e \<Longrightarrow> compareTextFiles R C p1 p2 = Inl e"
  by (simp add: compareTextFiles_def)

lemma statuses_without_streams:
  assumes "\<And>p. \<exists>e. createReadStream R p = Inl e"
  shows "status (reconcileFiles R C p1 p2) \<in> {''MISMATCH_EXTENSIONS'', ''FILE_NOT_FOUND'', ''ERROR''}"
proof -
  from assms obtain e where "createReadStream R p1 = Inl e" by blast
  then have "\<exists>e'. generateChecksum R C p1 = Inl e'"
    by (cases "generateChecksum R C p1") (auto dest: no_checksum)
  then obtain e' where g: "generateChecksum R C p1 = Inl e'" by blast
  show ?thesis
    by (simp add: reconcileFiles_def reconcile_run_def reconcile_try_def await_def Let_def g
        reconcile_catch_def split: sum.splits prod.splits)
qed

lemma stream_creation_fails:
  assumes "access R p1 = Inr ()" and "access R p2 = Inr ()"
    and "toLowerCase R (extname R p1) = toLowerCase R (extname R p2)"
    and "createHash R (checksumAlgorithm C) = Inr hash"
    and "createReadStream R p1 = Inl e"
    and "err_code e \<noteq> Some ''ENOENT''"
  shows "status (reconcileFiles R C p1 p2) = ''ERROR''"
    and "message (reconcileFiles R C p1 p2) = ''An unexpected error occurred: '' @ err_message e"
    and "reconcile_calls R C p1 p2 = [Access p1, Access p2, GenerateChecksum p1]"
  using assms
  by (simp_all add: reconcileFiles_def reconcile_calls_def reconcile_run_def reconcile_try_def
      await_def promise_all2_def generateChecksum_def reconcile_catch_def)

lemma demo_no_streams:
  "createReadStream demo p = Inl not_a_function" "createInterface demo p = Inl not_a_function"
  by (simp_all add: demo_def)

subsection \<open>The checksum fast path\<close>

text \<open>
  C1. The claim: two accessible files with the same extension and equal checksums give
  status \<open>MATCH\<close> with both checksums. The code: \<open>a.txt\<close> and \<open>copy.TXT\<close> are accessible,
  have the same extension after \<open>toLowerCase\<close> and the same bytes, but
  \<open>_generateChecksum\<close> rejects on the first file with \<open>not_a_function\<close>, and
  \<open>reconcileFiles\<close> resolves to status \<open>ERROR\<close> without checksums, after a single call of
  \<open>_generateChecksum\<close>.
\<close>

theorem identical_files_end_in_error:
  "access demo ''a.txt'' = Inr () \<and> access demo ''copy.TXT'' = Inr ()
   \<and> toLowerCase demo (extname demo ''a.txt'') = toLowerCase demo (extname demo ''copy.TXT'')
   \<and> readFile demo ''a.txt'' = readFile demo ''copy.TXT''
   \<and> generateChecksum demo quiet ''a.txt'' = Inl not_a_function
   \<and> status (reconcileFiles demo quiet ''a.txt'' ''copy.TXT'') = ''ERROR''
   \<and> message (reconcileFiles demo quiet ''a.txt'' ''copy.TXT'')
       = ''An unexpected error occurred: fs.createReadStream is not a function''
   \<and> checksum1 (reconcileFiles demo quiet ''a.txt'' ''copy.TXT'') = None
   \<and> checksum2 (reconcileFiles demo quiet ''a.txt'' ''copy.TXT'') = None
   \<and> reconcile_calls demo quiet ''a.txt'' ''copy.TXT''
       = [Access ''a.txt'', Access ''copy.TXT'', GenerateChecksum ''a.txt'']"
  by (simp add: run_defs demo_defs reconcile_catch_def not_a_function_def)

subsection \<open>The text comparator\<close>

text \<open>
  C5. The claim: two 10-line files that differ on every line give, in non-verbose mode,
  five differing-line entries and the truncation notice. The code: on \<open>t1.csv\<close> and
  \<open>t2.csv\<close>, ten lines each and no line in common, \<open>_compareTextFiles\<close> rejects with
  \<open>not_a_function\<close> at the creation of the first interface, and \<open>reconcileFiles\<close> resolves
  to status \<open>ERROR\<close> without details. The \<open>try\<close> block of the method, run on the lines of
  the two files, gives the six entries of the claim and stops at line 5; the method never
  reaches it.
\<close>

theorem ten_differing_lines_end_in_error:
  \<open>map_of demo_files ''t1.csv''
       = Some [''id,n'', ''1,one'', ''2,two'', ''3,three'', ''4,four'', ''5,five'', ''6,six'',
               ''7,seven'', ''8,eight'', ''9,nine'']
   \<and> map_of demo_files ''t2.csv''
       = Some [''key,name'', ''1,uno'', ''2,dos'', ''3,tres'', ''4,cuatro'', ''5,cinco'',
               ''6,seis'', ''7,siete'', ''8,ocho'', ''9,nueve'']
   \<and> \<not> verbose quiet
   \<and> compareTextFiles demo quiet ''t1.csv'' ''t2.csv'' = Inl not_a_function
   \<and> status (reconcileFiles demo quiet ''t1.csv'' ''t2.csv'') = ''ERROR''
   \<and> details (reconcileFiles demo quiet ''t1.csv'' ''t2.csv'') = None
   \<and> compareText_try False ''t1.csv'' ''t2.csv''
        ([''id,n'', ''1,one'', ''2,two'', ''3,three'', ''4,four'', ''5,five'', ''6,six'',
          ''7,seven'', ''8,eight'', ''9,nine''], None)
        ([''key,name'', ''1,uno'', ''2,dos'', ''3,tres'', ''4,cuatro'', ''5,cinco'',
          ''6,seis'', ''7,siete'', ''8,ocho'', ''9,nueve''], None)
       = Inr (False,
           [''Line 1 differs: File 1: "id,n" | File 2: "key,name"'',
            ''Line 2 differs: File 1: "1,one" | File 2: "1,uno"'',
            ''Line 3 differs: File 1: "2,two" | File 2: "2,dos"'',
            ''Line 4 differs: File 1: "3,three" | File 2: "3,tres"'',
            ''Line 5 differs: File 1: "4,four" | File 2: "4,cuatro"'',
            ''Further differences truncated (verbose logging not enabled).''],
           Line ''4,four'' ([''5,five'', ''6,six'', ''7,seven'', ''8,eight'', ''9,nine''], None),
           Line ''4,cuatro'' ([''5,cinco'', ''6,seis'', ''7,siete'', ''8,ocho'', ''9,nueve''], None))\<close>
  by (simp add: run_defs demo_defs reconcile_catch_def not_a_function_def differs_entry_def
      dquoted_def truncation_notice_def show_nat.simps)

text \<open>
  C6. The claim: in non-verbose mode, file A with the lines \<open>x\<close>, \<open>y\<close> and file B with the
  line \<open>x\<close> give status \<open>MISMATCH_CONTENT\<close> with the single entry for line 2 and file B.
  The code: on \<open>a.txt\<close> and \<open>b.txt\<close>, which have these lines, \<open>reconcileFiles\<close> resolves
  to status \<open>ERROR\<close> without details, \<open>_generateChecksum\<close> having rejected with
  \<open>not_a_function\<close>. The \<open>try\<close> block of \<open>_compareTextFiles\<close>, run on these lines, gives
  the entry of the claim and leaves the loop at once; no run reaches it.
\<close>

theorem shorter_file_ends_in_error:
  "map_of demo_files ''a.txt'' = Some [''x'', ''y'']
   \<and> map_of demo_files ''b.txt'' = Some [''x'']
   \<and> \<not> verbose quiet
   \<and> status (reconcileFiles demo quiet ''a.txt'' ''b.txt'') = ''ERROR''
   \<and> message (reconcileFiles demo quiet ''a.txt'' ''b.txt'')
       = ''An unexpected error occurred: fs.createReadStream is not a function''
   \<and> details (reconcileFiles demo quiet ''a.txt'' ''b.txt'') = None
   \<and> compareTextFiles demo quiet ''a.txt'' ''b.txt'' = Inl not_a_function
   \<and> compareText_try False ''a.txt'' ''b.txt'' ([''x'', ''y''], None) ([''x''], None)
       = Inr (False,
           [''Line count mismatch starting at line 2: File 'b.txt' ended prematurely.''],
           Line ''y'' ([], None), Done)"
  by (simp add: run_defs demo_defs reconcile_catch_def not_a_function_def premature_entry_def
      quoted_def show_nat.simps)

text \<open>
  C7. The claim: in verbose mode, when one file ends before the other, the details hold
  the entry for the premature end and one \<open>Only in File\<close> entry for each further line of
  the longer file. The code: on \<open>b.txt\<close> (one line) and \<open>long.txt\<close> (three lines), in
  verbose mode, \<open>_compareTextFiles\<close> rejects with \<open>not_a_function\<close> and records nothing.
  The \<open>try\<close> block of the method, run on these lines, gives the three entries of the
  claim; the method never reaches it.
\<close>

theorem verbose_drain_ends_in_error:
  \<open>map_of demo_files ''b.txt'' = Some [''x'']
   \<and> map_of demo_files ''long.txt'' = Some [''x'', ''y'', ''z'']
   \<and> verbose chatty
   \<and> compareTextFiles demo chatty ''b.txt'' ''long.txt'' = Inl not_a_function
   \<and> status (reconcileFiles demo chatty ''b.txt'' ''long.txt'') = ''ERROR''
   \<and> details (reconcileFiles demo chatty ''b.txt'' ''long.txt'') = None
   \<and> compareText_try True ''b.txt'' ''long.txt'' ([''x''], None) ([''x'', ''y'', ''z''], None)
       = Inr (False,
           [''Line count mismatch starting at line 2: File 'b.txt' ended prematurely.'',
            ''Line 2: Only in File 2 ('long.txt'): "y"'',
            ''Line 3: Only in File 2 ('long.txt'): "z"''],
           Done, Done)\<close>
  by (simp add: run_defs demo_defs reconcile_catch_def not_a_function_def premature_entry_def
      only_entry_def quoted_def dquoted_def show_nat.simps)

text \<open>
  C10. The claim: in non-verbose mode, two files of equal line count that differ on
  exactly five lines give the five entries and the truncation notice. The code: on
  \<open>u1.txt\<close> and \<open>u2.txt\<close>, seven lines each, differing on lines 1, 3, 4, 5 and 6,
  \<open>_compareTextFiles\<close> rejects with \<open>not_a_function\<close> and records neither entry nor
  notice. The \<open>try\<close> block of the method, run on these lines, gives the five entries and
  the notice and stops at line 6, the last line being the same in both files; the method
  never reaches it.
\<close>

theorem five_differences_end_in_error:
  \<open>map_of demo_files ''u1.txt'' = Some [''1'', ''same'', ''2'', ''3'', ''4'', ''5'', ''end'']
   \<and> map_of demo_files ''u2.txt'' = Some [''a'', ''same'', ''b'', ''c'', ''d'', ''e'', ''end'']
   \<and> \<not> verbose quiet
   \<and> compareTextFiles demo quiet ''u1.txt'' ''u2.txt'' = Inl not_a_function
   \<and> status (reconcileFiles demo quiet ''u1.txt'' ''u2.txt'') = ''ERROR''
   \<and> details (reconcileFiles demo quiet ''u1.txt'' ''u2.txt'') = None
   \<and> compareText_try False ''u1.txt'' ''u2.txt''
        ([''1'', ''same'', ''2'', ''3'', ''4'', ''5'', ''end''], None)
        ([''a'', ''same'', ''b'', ''c'', ''d'', ''e'', ''end''], None)
       = Inr (False,
           [''Line 1 differs: File 1: "1" | File 2: "a"'',
            ''Line 3 differs: File 1: "2" | File 2: "b"'',
            ''Line 4 differs: File 1: "3" | File 2: "c"'',
            ''Line 5 differs: File 1: "4" | File 2: "d"'',
            ''Line 6 differs: File 1: "5" | File 2: "e"'',
            ''Further differences truncated (verbose logging not enabled).''],
           Line ''5'' ([''end''], None), Line ''e'' ([''end''], None))\<close>
  by (simp add: run_defs demo_defs reconcile_catch_def not_a_function_def differs_entry_def
      dquoted_def truncation_notice_def show_nat.simps)

subsection \<open>The JSON comparator\<close>

text \<open>
  The verdict of \<open>_compareJsonFiles\<close> on two files that are read and parsed is
  \<open>util.isDeepStrictEqual\<close> of the two values, with the one detail when it is false.
\<close>

lemma compareJsonFiles_parsed:
  assumes "readFile R p1 = Inr s1" and "readFile R p2 = Inr s2"
    and "JSON_parse R s1 = Inr obj1" and "JSON_parse R s2 = Inr obj2"
  shows "compareJsonFiles R C p1 p2
       = \<lparr>isMatch = isDeepStrictEqual obj1 obj2,
          resultDetails = (if isDeepStrictEqual obj1 obj2 then [] else [json_differs_notice])\<rparr>"
  using assms by (simp add: compareJsonFiles_def promise_all2_def Let_def)

text \<open>
  C8. The claim: two \<open>.json\<close> files parsing to \<open>{"a":1,"b":2}\<close> and \<open>{"b":2,"a":1}\<close> give
  status \<open>MATCH\<close>, two parsing to \<open>[1,2]\<close> and \<open>[2,1]\<close> give \<open>MISMATCH_CONTENT\<close>, and \<open>1\<close>
  is not equal to \<open>"1"\<close>. The code: on \<open>k1.json\<close> and \<open>k2.json\<close>, and on \<open>l1.json\<close> and
  \<open>l2.json\<close>, which parse to these values, \<open>reconcileFiles\<close> resolves to status
  \<open>ERROR\<close>, \<open>_generateChecksum\<close> having rejected with \<open>not_a_function\<close>. The comparator
  itself reads with \<open>fs.readFile\<close>: called on the same files it returns the verdicts of
  the claim, which no run of \<open>reconcileFiles\<close> reaches.
\<close>

theorem json_files_end_in_error:
  \<open>(case readFile demo ''k1.json'' of Inl e \<Rightarrow> Inl e | Inr s \<Rightarrow> JSON_parse demo s)
       = Inr (JObject [(''a'', JNumber double_1), (''b'', JNumber double_2)])
   \<and> (case readFile demo ''k2.json'' of Inl e \<Rightarrow> Inl e | Inr s \<Rightarrow> JSON_parse demo s)
       = Inr (JObject [(''b'', JNumber double_2), (''a'', JNumber double_1)])
   \<and> (case readFile demo ''l1.json'' of Inl e \<Rightarrow> Inl e | Inr s \<Rightarrow> JSON_parse demo s)
       = Inr (JArray [JNumber double_1, JNumber double_2])
   \<and> (case readFile demo ''l2.json'' of Inl e \<Rightarrow> Inl e | Inr s \<Rightarrow> JSON_parse demo s)
       = Inr (JArray [JNumber double_2, JNumber double_1])
   \<and> status (reconcileFiles demo quiet ''k1.json'' ''k2.json'') = ''ERROR''
   \<and> status (reconcileFiles demo quiet ''l1.json'' ''l2.json'') = ''ERROR''
   \<and> message (reconcileFiles demo quiet ''k1.json'' ''k2.json'')
       = ''An unexpected error occurred: fs.createReadStream is not a function''
   \<and> reconcile_calls demo quiet ''k1.json'' ''k2.json''
       = [Access ''k1.json'', Access ''k2.json'', GenerateChecksum ''k1.json'']
   \<and> compareJsonFiles demo quiet ''k1.json'' ''k2.json'' = \<lparr>isMatch = True, resultDetails = []\<rparr>
   \<and> compareJsonFiles demo quiet ''l1.json'' ''l2.json''
       = \<lparr>isMatch = False,
          resultDetails =
            [''JSON content differs (deep strict comparison, order of keys in objects does not matter).'']\<rparr>
   \<and> compareJsonFiles demo quiet ''l1.json'' ''l1.json'' = \<lparr>isMatch = True, resultDetails = []\<rparr>
   \<and> compareJsonFiles demo quiet ''k1.json'' ''l1.json''
       = \<lparr>isMatch = False,
          resultDetails =
            [''JSON content differs (deep strict comparison, order of keys in objects does not matter).'']\<rparr>
   \<and> compareJsonFiles demo quiet ''l1.json'' ''k1.json''
       = \<lparr>isMatch = False,
          resultDetails =
            [''JSON content differs (deep strict comparison, order of keys in objects does not matter).'']\<rparr>
   \<and> \<not> isDeepStrictEqual (JNumber double_1) (JString ''1'')
   \<and> \<not> isDeepStrictEqual (JString ''1'') (JNumber double_1)\<close>
  by (simp add: run_defs demo_defs reconcile_catch_def not_a_function_def json_differs_notice_def
      double_1_def double_2_def)

text \<open>
  C9. The claim: when one of two \<open>.json\<close> files does not parse, the status is
  \<open>MISMATCH_CONTENT\<close>, never \<open>ERROR\<close>. The code: on \<open>cut.json\<close>, whose text is cut short,
  and \<open>l2.json\<close>, \<open>reconcileFiles\<close> resolves to status \<open>ERROR\<close>, \<open>_generateChecksum\<close>
  having rejected with \<open>not_a_function\<close>. The comparator itself, called on the same files,
  returns \<open>isMatch = false\<close> with the one detail for the parse error; no run of
  \<open>reconcileFiles\<close> reaches it.
\<close>

theorem malformed_json_ends_in_error:
  \<open>(case readFile demo ''cut.json'' of Inl e \<Rightarrow> Inl e | Inr s \<Rightarrow> JSON_parse demo s)
       = Inl SyntaxError
   \<and> status (reconcileFiles demo quiet ''cut.json'' ''l2.json'') = ''ERROR''
   \<and> message (reconcileFiles demo quiet ''cut.json'' ''l2.json'')
       = ''An unexpected error occurred: fs.createReadStream is not a function''
   \<and> details (reconcileFiles demo quiet ''cut.json'' ''l2.json'') = None
   \<and> compareJsonFiles demo quiet ''cut.json'' ''l2.json''
       = \<lparr>isMatch = False,
          resultDetails = [''Error parsing JSON: Unexpected end of JSON input'']\<rparr>
   \<and> compareJsonFiles demo quiet ''l2.json'' ''cut.json''
       = \<lparr>isMatch = False,
          resultDetails = [''Error parsing JSON: Unexpected end of JSON input'']\<rparr>\<close>
  by (simp add: run_defs demo_defs reconcile_catch_def not_a_function_def SyntaxError_def)

end
